theory Spec2Isabelle
  imports Complex_Main "HOL-Library.Product_Lexorder"
begin

section \<open>Python string primitives used by the views\<close>

text \<open>
  Request texts are modelled as ASCII strings.  \<open>str.strip\<close> and the regex class
  \<open>\s\<close> use Python's whitespace set (TAB, LF, VT, FF, CR, FS, GS, RS, US, space);
  \<open>\d\<close> and \<open>[a-zA-Z]\<close> are the ASCII digits and letters; \<open>str.lower\<close> maps
  \<open>A..Z\<close> to \<open>a..z\<close>.
\<close>

definition is_space :: "char \<Rightarrow> bool" where
  "is_space c = (c \<in> set [CHR 0x09, CHR 0x0A, CHR 0x0B, CHR 0x0C, CHR 0x0D,
                            CHR 0x1C, CHR 0x1D, CHR 0x1E, CHR 0x1F, CHR '' ''])"

definition is_digit :: "char \<Rightarrow> bool" where
  "is_digit c = (c \<in> set ''0123456789'')"

definition is_alpha :: "char \<Rightarrow> bool" where
  "is_alpha c = (c \<in> set ''abcdefghijklmnopqrstuvwxyzABCDEFGHIJKLMNOPQRSTUVWXYZ'')"

definition lower_char :: "char \<Rightarrow> char" where
  "lower_char c =
     (case map_of (zip ''ABCDEFGHIJKLMNOPQRSTUVWXYZ'' ''abcdefghijklmnopqrstuvwxyz'') c of
        Some d \<Rightarrow> d
      | None \<Rightarrow> c)"

definition lower :: "string \<Rightarrow> string" where
  "lower s = map lower_char s"

definition strip :: "string \<Rightarrow> string" where
  "strip s = rev (dropWhile is_space (rev (dropWhile is_space s)))"

fun startswith :: "string \<Rightarrow> string \<Rightarrow> bool" where
  "startswith [] s = True"
| "startswith (a # w) [] = False"
| "startswith (a # w) (c # cs) = (a = c \<and> startswith w cs)"

text \<open>Python's \<open>w in s\<close> on strings: \<open>w\<close> occurs in \<open>s\<close> as a contiguous block.\<close>

fun contains :: "string \<Rightarrow> string \<Rightarrow> bool" where
  "contains w [] = (w = [])"
| "contains w (c # cs) = (startswith w (c # cs) \<or> contains w cs)"

text \<open>\<open>any(w in ql for w in ws)\<close>\<close>

definition any_in :: "string list \<Rightarrow> string \<Rightarrow> bool" where
  "any_in ws ql = list_ex (\<lambda>w. contains w ql) ws"

text \<open>\<open>sep.join(parts)\<close>\<close>

fun join :: "string \<Rightarrow> string list \<Rightarrow> string" where
  "join sep [] = []"
| "join sep [x] = x"
| "join sep (x # y # ys) = x @ sep @ join sep (y # ys)"

definition digit_val :: "char \<Rightarrow> int" where
  "digit_val c = int (of_char c) - 48"

text \<open>\<open>int(ds)\<close> for a non-empty string of ASCII digits.\<close>

definition int_of_digits :: "string \<Rightarrow> int" where
  "int_of_digits ds = foldl (\<lambda>a c. 10 * a + digit_val c) 0 ds"

definition digit_char :: "nat \<Rightarrow> char" where
  "digit_char d = ''0123456789'' ! d"

text \<open>\<open>str(n)\<close> for a natural number, and for an integer.\<close>

function str_nat :: "nat \<Rightarrow> string" where
  "str_nat n = (if n < 10 then [digit_char n] else str_nat (n div 10) @ [digit_char (n mod 10)])"
  by pat_completeness auto
termination
  by (relation "measure (\<lambda>n. n)") auto

declare str_nat.simps [simp del]

definition str_int :: "int \<Rightarrow> string" where
  "str_int i = (if i < 0 then CHR ''-'' # str_nat (nat (- i)) else str_nat (nat i))"

section \<open>Intent parsing: the parts both endpoints write identically\<close>

text \<open>
  \<open>re.search(r"\$?\s*(\d+)", ql)\<close>.  \<open>match_amount_at s\<close> is the attempt anchored at the
  head of \<open>s\<close>: an optional dollar sign, any whitespace, then a maximal run of digits,
  which is group 1.  Backtracking cannot rescue a failed attempt (giving back the dollar
  sign or a whitespace character leaves a non-digit in front of \<open>\d+\<close>), and \<open>re.search\<close>
  retries at each later position in turn.
\<close>

definition match_amount_at :: "string \<Rightarrow> string option" where
  "match_amount_at s =
     (let s1 = (case s of [] \<Rightarrow> [] | c # cs \<Rightarrow> if c = CHR ''$'' then cs else c # cs);
          s2 = dropWhile is_space s1;
          ds = takeWhile is_digit s2
      in if ds = [] then None else Some ds)"

fun re_search_amount :: "string \<Rightarrow> string option" where
  "re_search_amount [] = None"
| "re_search_amount (c # cs) =
     (case match_amount_at (c # cs) of
        Some ds \<Rightarrow> Some ds
      | None \<Rightarrow> re_search_amount cs)"

text \<open>\<open>amount = int(m.group(1)) if m else None\<close>\<close>

definition parse_amount :: "string \<Rightarrow> int option" where
  "parse_amount ql = map_option int_of_digits (re_search_amount ql)"

text \<open>
  \<open>re.findall(r"[a-zA-Z]+", ql)\<close>: the maximal runs of letters, left to right.  The first
  argument is the run being read.
\<close>

fun findall_run :: "string \<Rightarrow> string \<Rightarrow> string list" where
  "findall_run cur [] = (if cur = [] then [] else [cur])"
| "findall_run cur (c # cs) =
     (if is_alpha c then findall_run (cur @ [c]) cs
      else if cur = [] then findall_run [] cs
      else cur # findall_run [] cs)"

definition findall_alpha :: "string \<Rightarrow> string list" where
  "findall_alpha ql = findall_run [] ql"

section \<open>The catalog\<close>

text \<open>
  \<open>models.Product\<close>.  \<open>price\<close> is a \<open>DecimalField\<close> with two decimal places; the
  model keeps it as the integer number of hundredths, so that a price of 49.90 is
  \<open>4990\<close> and the comparison \<open>price <= amount\<close> with an integer amount reads
  \<open>price p \<le> 100 * amount\<close>.  The image field plays no part in the views' logic.
  The product table is a list in the order in which the database returns an
  unordered query.
\<close>

record product =
  pid :: int
  name :: string
  category :: string
  price :: int
  tags :: string
  short_description :: string
  ai_description :: string
  ai_review_summary :: string

text \<open>The lookup \<open>field__icontains=w\<close>: case-insensitive substring test.\<close>

definition icontains :: "string \<Rightarrow> string \<Rightarrow> bool" where
  "icontains field w = contains (lower w) (lower field)"

text \<open>\<open>str(p.price)\<close> of a two-place decimal.\<close>

definition str_price :: "int \<Rightarrow> string" where
  "str_price c =
     (let a = nat \<bar>c\<bar>;
          frac = a mod 100
      in (if c < 0 then ''-'' else '''') @ str_nat (a div 100) @ ''.'' @
         (if frac < 10 then ''0'' else '''') @ str_nat frac)"

section \<open>Plain search: \<open>api_search\<close>\<close>

definition search_wants_under :: "string \<Rightarrow> bool" where
  "search_wants_under ql = any_in [''below'', ''under'', ''<'', ''less than'', ''cheaper''] ql"

definition search_wants_over :: "string \<Rightarrow> bool" where
  "search_wants_over ql =
     any_in [''above'', ''over'', ''>'', ''more than'', ''higher than'', ''expensive''] ql"

definition search_noise :: "string list" where
  "search_noise =
     [''product'', ''products'', ''gift'', ''below'', ''under'', ''less'', ''than'',
      ''above'', ''over'', ''more'', ''higher'', ''price'', ''prices'',
      ''cheap'', ''cheaper'', ''expensive'', ''dollar'', ''dollars'']"

definition search_keywords :: "string \<Rightarrow> string list" where
  "search_keywords ql = filter (\<lambda>w. w \<notin> set search_noise) (findall_alpha ql)"

text \<open>The \<open>Q\<close> object built by the loop over the keywords: a disjunction over all of them.\<close>

definition search_kw_query :: "string list \<Rightarrow> product \<Rightarrow> bool" where
  "search_kw_query keywords p =
     list_ex (\<lambda>w. icontains (name p) w \<or> icontains (category p) w \<or> icontains (tags p) w)
       keywords"

definition search_price_filter :: "int option \<Rightarrow> string \<Rightarrow> product list \<Rightarrow> product list" where
  "search_price_filter amount ql qs =
     (if amount \<noteq> None \<and> search_wants_under ql then
        filter (\<lambda>p. price p \<le> 100 * the amount) qs
      else if amount \<noteq> None \<and> search_wants_over ql then
        filter (\<lambda>p. 100 * the amount \<le> price p) qs
      else qs)"

definition search_keyword_filter :: "string list \<Rightarrow> product list \<Rightarrow> product list" where
  "search_keyword_filter keywords qs =
     (if keywords \<noteq> [] then filter (search_kw_query keywords) qs else qs)"

definition search_order :: "int option \<Rightarrow> string \<Rightarrow> product list \<Rightarrow> product list" where
  "search_order amount ql qs =
     (if amount \<noteq> None \<and> search_wants_over ql then
        take 20 (sort_key (\<lambda>p. (price p, pid p)) qs)
      else if amount \<noteq> None \<and> search_wants_under ql then
        take 20 (sort_key (\<lambda>p. (- price p, pid p)) qs)
      else take 20 (sort_key pid qs))"

text \<open>
  The products of the \<open>results\<close> list of the response, for the request parameter \<open>q\<close>
  (\<open>None\<close> when the parameter is absent).  The SEARCH interaction written for a logged-in
  user does not influence the results.
\<close>

definition api_search :: "product list \<Rightarrow> string option \<Rightarrow> product list" where
  "api_search products qparam =
     (let q = strip (case qparam of None \<Rightarrow> [] | Some s \<Rightarrow> s) in
      if q = [] then []
      else
        let ql = lower q;
            amount = parse_amount ql;
            keywords = search_keywords ql
        in search_order amount ql
             (search_keyword_filter keywords (search_price_filter amount ql products)))"

section \<open>Chat: \<open>api_chat\<close>\<close>

definition chat_wants_under :: "string \<Rightarrow> bool" where
  "chat_wants_under ql =
     any_in [''below'', ''under'', ''<'', ''less than'', ''cheaper'', ''low price''] ql"

definition chat_wants_over :: "string \<Rightarrow> bool" where
  "chat_wants_over ql =
     any_in [''above'', ''over'', ''>'', ''more than'', ''higher than'', ''at least''] ql"

definition chat_wants_high :: "string \<Rightarrow> bool" where
  "chat_wants_high ql =
     any_in [''higher price'', ''high price'', ''expensive'', ''premium'', ''costly'',
             ''most expensive''] ql"

definition categories :: "string list" where
  "categories = [''electronics'', ''fashion'', ''home'', ''office'', ''sports'']"

text \<open>\<open>next((c for c in categories if c in ql), None)\<close>\<close>

definition chat_category :: "string \<Rightarrow> string option" where
  "chat_category ql = find (\<lambda>c. contains c ql) categories"

definition chat_noise :: "string list" where
  "chat_noise =
     [''suggest'', ''recommend'', ''show'', ''me'', ''please'',
      ''gift'', ''below'', ''under'', ''less'', ''than'',
      ''above'', ''over'', ''more'', ''higher'', ''price'', ''prices'',
      ''expensive'', ''premium'', ''costly'', ''most'',
      ''dollar'', ''dollars'']"

definition chat_keywords :: "string \<Rightarrow> string list" where
  "chat_keywords ql =
     filter (\<lambda>w. w \<notin> set chat_noise \<and> length w > 2) (findall_alpha ql)"

definition chat_category_filter :: "string option \<Rightarrow> product list \<Rightarrow> product list" where
  "chat_category_filter cat qs =
     (case cat of
        None \<Rightarrow> qs
      | Some c \<Rightarrow> filter (\<lambda>p. icontains (category p) c \<or> icontains (tags p) c) qs)"

definition chat_price_filter :: "int option \<Rightarrow> string \<Rightarrow> product list \<Rightarrow> product list" where
  "chat_price_filter amount ql qs =
     (if amount \<noteq> None \<and> chat_wants_under ql then
        filter (\<lambda>p. price p \<le> 100 * the amount) qs
      else if amount \<noteq> None \<and> (chat_wants_over ql \<or> chat_wants_high ql) then
        filter (\<lambda>p. 100 * the amount \<le> price p) qs
      else qs)"

definition chat_kw_query :: "string list \<Rightarrow> product \<Rightarrow> bool" where
  "chat_kw_query keywords p =
     list_ex (\<lambda>w. icontains (name p) w \<or> icontains (tags p) w \<or> icontains (category p) w \<or>
                   icontains (short_description p) w)
       (take 6 keywords)"

definition chat_keyword_filter :: "string list \<Rightarrow> product list \<Rightarrow> product list" where
  "chat_keyword_filter keywords qs =
     (if keywords \<noteq> [] then filter (chat_kw_query keywords) qs else qs)"

definition chat_order :: "int option \<Rightarrow> string \<Rightarrow> product list \<Rightarrow> product list" where
  "chat_order amount ql qs =
     (if chat_wants_high ql \<and> amount = None then
        sort_key (\<lambda>p. (- price p, - pid p)) qs
      else if amount \<noteq> None \<and> (chat_wants_over ql \<or> chat_wants_high ql) then
        sort_key (\<lambda>p. (- price p, - pid p)) qs
      else if amount \<noteq> None \<and> chat_wants_under ql then
        sort_key (\<lambda>p. (price p, pid p)) qs
      else sort_key (\<lambda>p. - pid p) qs)"

definition chat_title :: "int option \<Rightarrow> string \<Rightarrow> string" where
  "chat_title amount ql =
     (if chat_wants_high ql \<and> amount = None then
        ''Here are some higher-priced products from our catalog:''
      else if amount \<noteq> None \<and> (chat_wants_over ql \<or> chat_wants_high ql) then
        ''Here are some products from our catalog priced above $'' @ str_int (the amount) @ '':''
      else if amount \<noteq> None \<and> chat_wants_under ql then
        ''Here are some products from our catalog under $'' @ str_int (the amount) @ '':''
      else ''Here are some products from our catalog:'')"

text \<open>\<open>products = list(qs[:5])\<close> for the stripped, non-empty message.\<close>

definition chat_products :: "product list \<Rightarrow> string \<Rightarrow> product list" where
  "chat_products products message =
     (let ql = lower message;
          amount = parse_amount ql;
          keywords = chat_keywords ql
      in take 5 (chat_order amount ql
           (chat_keyword_filter keywords
              (chat_price_filter amount ql
                 (chat_category_filter (chat_category ql) products)))))"

section \<open>Responses\<close>

text \<open>
  A response is its HTTP status with its JSON body.  \<open>NotFound\<close> is the 404 of
  \<open>get_object_or_404\<close>.
\<close>

datatype body =
    Reply string
  | ErrorMsg string
  | Description int string
  | Summary int string
  | NotFound

type_synonym response = "nat \<times> body"

text \<open>What a request does besides answering: queries of the catalog and calls of the AI backend.\<close>

datatype effect = CatalogQuery | AICall string

definition nl :: string where
  "nl = [CHR 0x0A]"

text \<open>The dash of the reply lines, as its three UTF-8 bytes.\<close>

definition em_dash :: string where
  "em_dash = [CHR 0xE2, CHR 0x80, CHR 0x94]"

definition get_product :: "product list \<Rightarrow> int \<Rightarrow> product option" where
  "get_product products product_id = find (\<lambda>p. pid p = product_id) products"

text \<open>\<open>product.save()\<close>: the row with the product's id takes the object's fields.\<close>

definition save_product :: "product \<Rightarrow> product list \<Rightarrow> product list" where
  "save_product p products = map (\<lambda>q. if pid q = pid p then p else q) products"

section \<open>Chat responder\<close>

definition chat_line :: "product \<Rightarrow> string" where
  "chat_line p =
     ''- '' @ name p @ '' ($'' @ str_price (price p) @ '') '' @ em_dash @ '' '' @ category p @
     '' (View: /products/'' @ str_int (pid p) @ ''/)''"

definition chat_catalog_line :: "product \<Rightarrow> string" where
  "chat_catalog_line p =
     ''- '' @ name p @ '' ($'' @ str_price (price p) @ '') ['' @ category p @ ''] Tags: '' @ tags p"

definition chat_prompt :: "string \<Rightarrow> product list \<Rightarrow> string" where
  "chat_prompt message ps =
     join nl
       ['''',
        ''You are SmartShop's assistant. ONLY use products from the list below.'',
        ''Do NOT invent new products. Do NOT add items not in the list.'',
        '''',
        ''User request: '' @ message,
        '''',
        ''Products:'',
        join nl (map chat_catalog_line ps),
        '''',
        ''Reply with a short friendly list. Include prices.'',
        '''']"

definition chat_no_match :: string where
  "chat_no_match =
     ''I couldn't find matching products. Try: 'most expensive products', 'over $50 electronics', or 'under $30 sports'.''"

definition chat_ai_busy :: string where
  "chat_ai_busy = nl @ nl @ ''(Note: AI service busy, showing catalog-based suggestions.)''"

text \<open>
  \<open>api_chat\<close>, with \<open>generate_text\<close> as the views import it (the tests patch it) and the
  \<open>message\<close> field of the request (\<open>None\<close> when it is absent or null).  The result is the
  response and the effects of the request in the order they happen.
\<close>

definition api_chat ::
  "(string \<Rightarrow> string) \<Rightarrow> product list \<Rightarrow> string option \<Rightarrow> response \<times> effect list" where
  "api_chat generate_text products msg =
     (let message = strip (case msg of None \<Rightarrow> [] | Some s \<Rightarrow> s) in
      if message = [] then ((400, Reply ''Please type a question first.''), [])
      else
        let ql = lower message;
            amount = parse_amount ql;
            title = chat_title amount ql;
            ps = chat_products products message
        in if ps = [] then ((200, Reply chat_no_match), [CatalogQuery])
           else
             let deterministic = join nl (title # map chat_line ps);
                 prompt = chat_prompt message ps;
                 ai_reply = strip (generate_text prompt);
                 reply = (if ai_reply \<noteq> [] then ai_reply else deterministic @ chat_ai_busy)
             in ((200, Reply reply), [CatalogQuery, AICall prompt]))"

section \<open>Review summarizer\<close>

text \<open>\<open>models.Review\<close>; the author of a review plays no part in the summary.\<close>

record review =
  review_product :: int
  rating :: int
  review_text :: string
  created_at :: int

definition pros_keywords :: "string list" where
  "pros_keywords = [''great'', ''good'', ''perfect'', ''love'', ''value'', ''works'', ''quality'']"

definition cons_keywords :: "string list" where
  "cons_keywords =
     [''bad'', ''poor'', ''disappointed'', ''durable'', ''worse'', ''problem'', ''okay'']"

text \<open>The lists \<open>pros\<close> and \<open>cons\<close> when the loop over the reviews ends.\<close>

definition collect_pros :: "review list \<Rightarrow> string list" where
  "collect_pros reviews =
     map review_text (filter (\<lambda>r. any_in pros_keywords (lower (review_text r))) reviews)"

definition collect_cons :: "review list \<Rightarrow> string list" where
  "collect_cons reviews =
     map review_text (filter (\<lambda>r. any_in cons_keywords (lower (review_text r))) reviews)"

text \<open>\<open>pros[:3] if pros else [...]\<close>, and the same for \<open>cons\<close>.\<close>

definition top_pros :: "review list \<Rightarrow> string list" where
  "top_pros reviews =
     (let pros = collect_pros reviews
      in if pros \<noteq> [] then take 3 pros else [''No strong pros detected from text.''])"

definition top_cons :: "review list \<Rightarrow> string list" where
  "top_cons reviews =
     (let cons = collect_cons reviews
      in if cons \<noteq> [] then take 3 cons else [''No strong cons detected from text.''])"

text \<open>The bullet line \<open>f"- {p}"\<close>.\<close>

definition bullet :: "string \<Rightarrow> string" where
  "bullet s = ''- '' @ s"

text \<open>\<open>avg = sum(r.rating for r in reviews) / len(reviews)\<close>, for a non-empty list.\<close>

definition mean_rating :: "review list \<Rightarrow> rat" where
  "mean_rating reviews = of_int (sum_list (map rating reviews)) / of_nat (length reviews)"

text \<open>
  \<open>basic_review_summary\<close>.  The quotient is a Python float and \<open>{avg:.1f}\<close> prints it
  rounded to one decimal place; both steps are determined by the exact quotient, and the
  model takes their composition as the parameter \<open>fmt1\<close>, from the exact mean to the text
  printed.
\<close>

definition basic_review_summary :: "(rat \<Rightarrow> string) \<Rightarrow> review list \<Rightarrow> string" where
  "basic_review_summary fmt1 reviews =
     (if reviews = [] then ''No reviews yet.''
      else
        join nl
          ([''Overall sentiment: average rating is '' @ fmt1 (mean_rating reviews) @
              ''/5 from '' @ str_nat (length reviews) @ '' review(s).'',
            '''',
            ''Top pros:''] @
           map bullet (top_pros reviews) @
           ['''',
            ''Top cons:''] @
           map bullet (top_cons reviews)))"

text \<open>
  \<open>product.reviews.all().order_by("-created_at")[:20]\<close>.  Reviews created at the same
  instant keep their table order.
\<close>

definition recent_reviews :: "review list \<Rightarrow> int \<Rightarrow> review list" where
  "recent_reviews reviews product_id =
     take 20 (sort_key (\<lambda>r. - created_at r) (filter (\<lambda>r. review_product r = product_id) reviews))"

definition summarize_prompt :: "review list \<Rightarrow> string" where
  "summarize_prompt rs =
     join nl
       ['''',
        ''Summarize these customer reviews into:'',
        ''1) overall sentiment (one line)'',
        ''2) top pros (3 bullets)'',
        ''3) top cons (3 bullets)'',
        ''Keep it concise.'',
        '''',
        ''Reviews:'',
        join nl (map (\<lambda>r. ''- ('' @ str_int (rating r) @ ''/5) '' @ review_text r) rs),
        '''']"

definition quota_note :: string where
  "quota_note = nl @ nl @ ''(Note: AI quota reached, showing basic summary.)''"

text \<open>\<open>api_summarize_reviews\<close>: the response and the product table after the request.\<close>

definition api_summarize_reviews ::
  "(string \<Rightarrow> string) \<Rightarrow> (rat \<Rightarrow> string) \<Rightarrow> product list \<Rightarrow> review list \<Rightarrow> int \<Rightarrow>
     response \<times> product list" where
  "api_summarize_reviews generate_text fmt1 products all_reviews product_id =
     (case get_product products product_id of
        None \<Rightarrow> ((404, NotFound), products)
      | Some product \<Rightarrow>
          let reviews = recent_reviews all_reviews (pid product) in
          if reviews = [] then ((400, ErrorMsg ''No reviews to summarize''), products)
          else
            let text = generate_text (summarize_prompt reviews);
                text = (if text = [] then basic_review_summary fmt1 reviews @ quota_note else text);
                product = product\<lparr>ai_review_summary := text\<rparr>
            in ((200, Summary (pid product) (ai_review_summary product)),
                save_product product products))"

section \<open>Description generator\<close>

definition description_prompt :: "product \<Rightarrow> string" where
  "description_prompt product =
     join nl
       ['''',
        ''Write a short, engaging e-commerce product description (80-120 words).'',
        ''Focus on benefits, not only specs.'',
        ''Product:'',
        ''- name: '' @ name product,
        ''- category: '' @ category product,
        ''- price: '' @ str_price (price product),
        ''- tags: '' @ tags product,
        ''Existing short description: '' @ short_description product,
        '''']"

text \<open>\<open>api_generate_description\<close>: the response and the product table after the request.\<close>

definition api_generate_description ::
  "(string \<Rightarrow> string) \<Rightarrow> product list \<Rightarrow> int \<Rightarrow> response \<times> product list" where
  "api_generate_description generate_text products product_id =
     (case get_product products product_id of
        None \<Rightarrow> ((404, NotFound), products)
      | Some product \<Rightarrow>
          let text = generate_text (description_prompt product) in
          if text = [] then ((502, ErrorMsg ''Gemini returned empty text''), products)
          else
            let product = product\<lparr>ai_description := text\<rparr>
            in ((200, Description (pid product) (ai_description product)),
                save_product product products))"

section \<open>Recommendation engine\<close>


text \<open>
  What \<open>json.loads\<close> can return.  A float keeps its literal; an object is the list of
  its bindings, read with \<open>map_of\<close>.
\<close>

datatype json =
    JNull
  | JBool bool
  | JInt int
  | JFloat string
  | JString string
  | JArray "json list"
  | JObject "(string \<times> json) list"
















section \<open>The intent each endpoint extracts\<close>

text \<open>
  The values of \<open>amount\<close>, \<open>wants_under\<close>, \<open>wants_over\<close> and \<open>keywords\<close> in
  \<open>api_search\<close> and in \<open>api_chat\<close>, for the lower-cased text.
\<close>

definition search_intent :: "string \<Rightarrow> int option \<times> bool \<times> bool \<times> string list" where
  "search_intent ql =
     (parse_amount ql, search_wants_under ql, search_wants_over ql, search_keywords ql)"

definition chat_intent :: "string \<Rightarrow> int option \<times> bool \<times> bool \<times> string list" where
  "chat_intent ql =
     (parse_amount ql, chat_wants_under ql, chat_wants_over ql, chat_keywords ql)"

section \<open>Orderings of a result list\<close>

text \<open>
  Price ascending or descending as the primary key, the id ascending or descending as
  the key that breaks ties.
\<close>

definition price_asc_id_asc :: "product list \<Rightarrow> bool" where
  "price_asc_id_asc xs =
     sorted_wrt (\<lambda>a b. price a < price b \<or> (price a = price b \<and> pid a \<le> pid b)) xs"

definition price_desc_id_asc :: "product list \<Rightarrow> bool" where
  "price_desc_id_asc xs =
     sorted_wrt (\<lambda>a b. price b < price a \<or> (price a = price b \<and> pid a \<le> pid b)) xs"

definition price_desc_id_desc :: "product list \<Rightarrow> bool" where
  "price_desc_id_desc xs =
     sorted_wrt (\<lambda>a b. price b < price a \<or> (price a = price b \<and> pid b \<le> pid a)) xs"

section \<open>Fixtures\<close>

definition mk_product :: "int \<Rightarrow> string \<Rightarrow> string \<Rightarrow> int \<Rightarrow> string \<Rightarrow> product" where
  "mk_product i n c pr tg =
     \<lparr>pid = i, name = n, category = c, price = pr, tags = tg, short_description = '''',
      ai_description = '''', ai_review_summary = ''''\<rparr>"

text \<open>The catalog of \<open>tests_ai_logic.py\<close>, with one more product at the price of the second.\<close>

definition home_catalog :: "product list" where
  "home_catalog =
     [mk_product 1 ''Cheap Item'' ''Home'' 1000 ''cheap,home'',
      mk_product 2 ''Mid Item'' ''Home'' 5000 ''mid,home'',
      mk_product 3 ''Expensive Item'' ''Home'' 20000 ''premium,home'',
      mk_product 4 ''Second Mid Item'' ''Home'' 5000 ''mid,home'']"




definition mk_review :: "int \<Rightarrow> int \<Rightarrow> string \<Rightarrow> int \<Rightarrow> review" where
  "mk_review p r t c = \<lparr>review_product = p, rating = r, review_text = t, created_at = c\<rparr>"

text \<open>The reviews of \<open>tests.py\<close>, for product 1.\<close>

definition earbud_reviews :: "review list" where
  "earbud_reviews =
     [mk_review 1 5 ''Great quality and works perfectly.'' 1,
      mk_review 1 4 ''Good value for money. I like it.'' 2,
      mk_review 1 3 ''It is okay, but could be better.'' 3,
      mk_review 1 2 ''Not very durable. Disappointed.'' 4]"

text \<open>The catalog of \<open>tests_api.py\<close>.\<close>

definition test_catalog :: "product list" where
  "test_catalog =
     [\<lparr>pid = 1, name = ''Wireless Earbuds'', category = ''Electronics'', price = 4990,
       tags = ''audio,wireless,gym'', short_description = ''Compact wireless earbuds.'',
       ai_description = '''', ai_review_summary = ''''\<rparr>,
      \<lparr>pid = 2, name = ''Yoga Mat'', category = ''Sports'', price = 1800,
       tags = ''fitness,yoga,home-workout'', short_description = ''Non-slip yoga mat.'',
       ai_description = '''', ai_review_summary = ''''\<rparr>,
      \<lparr>pid = 3, name = ''Smart Watch'', category = ''Electronics'', price = 11900,
       tags = ''health,fitness,wearable'',
       short_description = ''Track fitness and notifications.'',
       ai_description = '''', ai_review_summary = ''''\<rparr>]"

section \<open>Properties of retrieval\<close>

lemma any_in_member: "w \<in> set ws \<Longrightarrow> contains w ql \<Longrightarrow> any_in ws ql"
  by (auto simp: any_in_def list_ex_iff)

lemma lower_Nil_iff: "lower s = [] \<longleftrightarrow> s = []"
  by (simp add: lower_def)

lemma sort_asc_asc: "price_asc_id_asc (take n (sort_key (\<lambda>p. (price p, pid p)) qs))"
proof -
  have "sorted (map (\<lambda>p. (price p, pid p)) (sort_key (\<lambda>p. (price p, pid p)) qs))"
    by (rule sorted_sort_key)
  then have "sorted_wrt (\<lambda>a b. (price a, pid a) \<le> (price b, pid b))
               (sort_key (\<lambda>p. (price p, pid p)) qs)"
    by (simp add: sorted_map)
  then have "sorted_wrt (\<lambda>a b. price a < price b \<or> (price a = price b \<and> pid a \<le> pid b))
               (sort_key (\<lambda>p. (price p, pid p)) qs)"
    by (rule sorted_wrt_mono_rel [rotated]) (auto simp: less_eq_prod_def)
  then show ?thesis
    unfolding price_asc_id_asc_def by (rule sorted_wrt_take)
qed

lemma sort_desc_asc: "price_desc_id_asc (take n (sort_key (\<lambda>p. (- price p, pid p)) qs))"
proof -
  have "sorted (map (\<lambda>p. (- price p, pid p)) (sort_key (\<lambda>p. (- price p, pid p)) qs))"
    by (rule sorted_sort_key)
  then have "sorted_wrt (\<lambda>a b. (- price a, pid a) \<le> (- price b, pid b))
               (sort_key (\<lambda>p. (- price p, pid p)) qs)"
    by (simp add: sorted_map)
  then have "sorted_wrt (\<lambda>a b. price b < price a \<or> (price a = price b \<and> pid a \<le> pid b))
               (sort_key (\<lambda>p. (- price p, pid p)) qs)"
    by (rule sorted_wrt_mono_rel [rotated]) (auto simp: less_eq_prod_def)
  then show ?thesis
    unfolding price_desc_id_asc_def by (rule sorted_wrt_take)
qed

lemma sort_desc_desc: "price_desc_id_desc (take n (sort_key (\<lambda>p. (- price p, - pid p)) qs))"
proof -
  have "sorted (map (\<lambda>p. (- price p, - pid p)) (sort_key (\<lambda>p. (- price p, - pid p)) qs))"
    by (rule sorted_sort_key)
  then have "sorted_wrt (\<lambda>a b. (- price a, - pid a) \<le> (- price b, - pid b))
               (sort_key (\<lambda>p. (- price p, - pid p)) qs)"
    by (simp add: sorted_map)
  then have "sorted_wrt (\<lambda>a b. price b < price a \<or> (price a = price b \<and> pid b \<le> pid a))
               (sort_key (\<lambda>p. (- price p, - pid p)) qs)"
    by (rule sorted_wrt_mono_rel [rotated]) (auto simp: less_eq_prod_def)
  then show ?thesis
    unfolding price_desc_id_desc_def by (rule sorted_wrt_take)
qed

lemma search_order_subset: "set (search_order a ql qs) \<subseteq> set qs"
  by (auto simp: search_order_def dest: in_set_takeD)

lemma search_order_length: "length (search_order a ql qs) \<le> 20"
  by (simp add: search_order_def)

lemma search_keyword_filter_subset: "set (search_keyword_filter ks qs) \<subseteq> set qs"
  by (auto simp: search_keyword_filter_def)

lemma chat_order_subset: "set (chat_order a ql qs) \<subseteq> set qs"
  by (auto simp: chat_order_def)

lemma chat_keyword_filter_subset: "set (chat_keyword_filter ks qs) \<subseteq> set qs"
  by (auto simp: chat_keyword_filter_def)

lemma api_search_unfold:
  "strip raw \<noteq> [] \<Longrightarrow>
   api_search products (Some raw) =
     search_order (parse_amount (lower (strip raw))) (lower (strip raw))
       (search_keyword_filter (search_keywords (lower (strip raw)))
          (search_price_filter (parse_amount (lower (strip raw))) (lower (strip raw)) products))"
  by (simp add: api_search_def Let_def)

lemma api_search_length: "length (api_search products qparam) \<le> 20"
  by (simp add: api_search_def Let_def search_order_length)

lemma chat_products_length: "length (chat_products products message) \<le> 5"
  by (simp add: chat_products_def Let_def)

lemma contains_nonempty: "contains (a # w) ql \<Longrightarrow> ql \<noteq> []"
  by auto

text \<open>
  Claim C1, as the code has it.  Take a query whose lower-cased, stripped text contains
  \<open>above\<close> or \<open>over\<close> and whose first number is \<open>N\<close>.  If the text holds none of the
  search endpoint's under-direction words, every product \<open>api_search\<close> returns costs at
  least \<open>N\<close>, and the results are ordered by non-decreasing price (cheapest first), ties
  by ascending id.  If it holds none of the chat endpoint's under-direction words, every
  product the chat retrieves costs at least \<open>N\<close>, and the products are ordered by
  non-increasing price, ties by descending id.
\<close>

theorem over_amount_results:
  assumes ql: "ql = lower (strip raw)"
    and over: "contains ''above'' ql \<or> contains ''over'' ql"
    and amt: "parse_amount ql = Some N"
  shows "(\<not> search_wants_under ql \<longrightarrow>
            (\<forall>p \<in> set (api_search products (Some raw)). 100 * N \<le> price p) \<and>
            price_asc_id_asc (api_search products (Some raw))) \<and>
         (\<not> chat_wants_under ql \<longrightarrow>
            (\<forall>p \<in> set (chat_products products (strip raw)). 100 * N \<le> price p) \<and>
            price_desc_id_desc (chat_products products (strip raw)))"
proof (intro conjI impI)
  from over have ne: "strip raw \<noteq> []"
    unfolding ql by (auto simp: lower_Nil_iff dest!: contains_nonempty)
  from over have so: "search_wants_over ql"
    unfolding search_wants_over_def by (auto intro: any_in_member)
  from over have co: "chat_wants_over ql"
    unfolding chat_wants_over_def by (auto intro: any_in_member)
  {
    assume nu: "\<not> search_wants_under ql"
    have pf: "search_price_filter (Some N) ql products = filter (\<lambda>p. 100 * N \<le> price p) products"
      using nu so by (simp add: search_price_filter_def)
    have "set (api_search products (Some raw)) \<subseteq> set (search_price_filter (Some N) ql products)"
      using search_order_subset search_keyword_filter_subset
      unfolding api_search_unfold [OF ne] ql [symmetric] amt by blast
    then show "\<forall>p \<in> set (api_search products (Some raw)). 100 * N \<le> price p"
      unfolding pf by auto
    show "price_asc_id_asc (api_search products (Some raw))"
      unfolding api_search_unfold [OF ne] ql [symmetric] amt
      using so by (simp add: search_order_def sort_asc_asc)
  }
  {
    assume nu: "\<not> chat_wants_under ql"
    have pf: "chat_price_filter (Some N) ql qs = filter (\<lambda>p. 100 * N \<le> price p) qs" for qs
      using nu co by (simp add: chat_price_filter_def)
    have "set (chat_products products (strip raw)) \<subseteq>
          set (chat_price_filter (Some N) ql (chat_category_filter (chat_category ql) products))"
      using chat_order_subset chat_keyword_filter_subset
      unfolding chat_products_def Let_def ql [symmetric] amt
      by (meson in_set_takeD subset_iff subsetI)
    then show "\<forall>p \<in> set (chat_products products (strip raw)). 100 * N \<le> price p"
      unfolding pf by auto
    show "price_desc_id_desc (chat_products products (strip raw))"
      unfolding chat_products_def Let_def ql [symmetric] amt
      using co by (simp add: chat_order_def sort_desc_desc)
  }
qed


text \<open>The theorem at the query \<open>above $20\<close> on the fixture catalog.\<close>

theorem over_amount_results_witness:
  "contains ''above'' (lower (strip ''above $20'')) \<and>
   parse_amount (lower (strip ''above $20'')) = Some 20 \<and>
   \<not> search_wants_under (lower (strip ''above $20'')) \<and>
   \<not> chat_wants_under (lower (strip ''above $20'')) \<and>
   list_all (\<lambda>p. 100 * 20 \<le> price p) (api_search home_catalog (Some ''above $20'')) \<and>
   price_asc_id_asc (api_search home_catalog (Some ''above $20'')) \<and>
   list_all (\<lambda>p. 100 * 20 \<le> price p) (chat_products home_catalog (strip ''above $20'')) \<and>
   price_desc_id_desc (chat_products home_catalog (strip ''above $20''))"
proof -
  have h1: "contains ''above'' (lower (strip ''above $20'')) \<or>
            contains ''over'' (lower (strip ''above $20''))"
    by code_simp
  have h2: "parse_amount (lower (strip ''above $20'')) = Some 20"
    by code_simp
  have h3: "\<not> search_wants_under (lower (strip ''above $20''))"
    by code_simp
  have h4: "\<not> chat_wants_under (lower (strip ''above $20''))"
    by code_simp
  have h5: "contains ''above'' (lower (strip ''above $20''))"
    by code_simp
  from over_amount_results [OF refl h1 h2, of home_catalog] h2 h3 h4 h5
  show ?thesis by (simp add: list_all_iff)
qed

text \<open>
  The ordering claim C1 states (non-increasing price, ties by ascending id) fails for both
  endpoints at the query \<open>above $20\<close>: search lists the cheapest product first, chat
  breaks the tie between products 4 and 2 by descending id.  With an under-direction word
  in the text the price filter is the under filter, and the amount is the first number of
  the text, not the one after \<open>above\<close>.
\<close>

theorem over_amount_counterexample:
  "contains ''above $20'' ''above $20'' \<and>
   map (\<lambda>p. (price p, pid p)) (api_search home_catalog (Some ''above $20'')) =
     [(5000, 2), (5000, 4), (20000, 3)] \<and>
   \<not> price_desc_id_asc (api_search home_catalog (Some ''above $20'')) \<and>
   map (\<lambda>p. (price p, pid p)) (chat_products home_catalog (strip ''above $20'')) =
     [(20000, 3), (5000, 4), (5000, 2)] \<and>
   \<not> price_desc_id_asc (chat_products home_catalog (strip ''above $20'')) \<and>
   contains ''above $20'' ''cheaper above $20'' \<and>
   map price (api_search home_catalog (Some ''cheaper above $20'')) = [1000] \<and>
   contains ''above $20'' ''2 products above $20'' \<and>
   map price (api_search home_catalog (Some ''2 products above $20'')) = [1000, 5000, 5000, 20000]"
  by code_simp

text \<open>
  Claim C2, as the code has it.  Take a query whose lower-cased, stripped text contains
  \<open>under\<close> or \<open>below\<close> and whose first number is \<open>N\<close>.  Every product returned by
  \<open>api_search\<close> and every product the chat retrieves costs at most \<open>N\<close>; search returns
  at most 20 products and chat at most 5.  When the text holds none of the search
  endpoint's over-direction words, the search results are ordered by non-increasing price
  (closest under the amount first), ties by ascending id.  When it holds none of the chat
  endpoint's over-direction or high-price words, the chat products are ordered by
  non-decreasing price, ties by ascending id.
\<close>

theorem under_amount_results:
  assumes ql: "ql = lower (strip raw)"
    and under: "contains ''under'' ql \<or> contains ''below'' ql"
    and amt: "parse_amount ql = Some N"
  shows "(\<forall>p \<in> set (api_search products (Some raw)). price p \<le> 100 * N) \<and>
         length (api_search products (Some raw)) \<le> 20 \<and>
         (\<not> search_wants_over ql \<longrightarrow> price_desc_id_asc (api_search products (Some raw))) \<and>
         (\<forall>p \<in> set (chat_products products (strip raw)). price p \<le> 100 * N) \<and>
         length (chat_products products (strip raw)) \<le> 5 \<and>
         (\<not> chat_wants_over ql \<and> \<not> chat_wants_high ql \<longrightarrow>
            price_asc_id_asc (chat_products products (strip raw)))"
proof -
  from under have ne: "strip raw \<noteq> []"
    unfolding ql by (auto simp: lower_Nil_iff dest!: contains_nonempty)
  from under have su: "search_wants_under ql"
    unfolding search_wants_under_def by (auto intro: any_in_member)
  from under have cu: "chat_wants_under ql"
    unfolding chat_wants_under_def by (auto intro: any_in_member)
  have spf: "search_price_filter (Some N) ql qs = filter (\<lambda>p. price p \<le> 100 * N) qs" for qs
    using su by (simp add: search_price_filter_def)
  have "set (api_search products (Some raw)) \<subseteq> set (search_price_filter (Some N) ql products)"
    using search_order_subset search_keyword_filter_subset
    unfolding api_search_unfold [OF ne] ql [symmetric] amt by blast
  then have s1: "\<forall>p \<in> set (api_search products (Some raw)). price p \<le> 100 * N"
    unfolding spf by auto
  have s2: "\<not> search_wants_over ql \<longrightarrow> price_desc_id_asc (api_search products (Some raw))"
    unfolding api_search_unfold [OF ne] ql [symmetric] amt
    using su by (simp add: search_order_def sort_desc_asc)
  have cpf: "chat_price_filter (Some N) ql qs = filter (\<lambda>p. price p \<le> 100 * N) qs" for qs
    using cu by (simp add: chat_price_filter_def)
  have "set (chat_products products (strip raw)) \<subseteq>
        set (chat_price_filter (Some N) ql (chat_category_filter (chat_category ql) products))"
    using chat_order_subset chat_keyword_filter_subset
    unfolding chat_products_def Let_def ql [symmetric] amt
    by (meson in_set_takeD subset_iff subsetI)
  then have c1: "\<forall>p \<in> set (chat_products products (strip raw)). price p \<le> 100 * N"
    unfolding cpf by auto
  have c2: "\<not> chat_wants_over ql \<and> \<not> chat_wants_high ql \<longrightarrow>
            price_asc_id_asc (chat_products products (strip raw))"
    unfolding chat_products_def Let_def ql [symmetric] amt
    using cu by (simp add: chat_order_def sort_asc_asc)
  from s1 s2 c1 c2 api_search_length chat_products_length show ?thesis
    by blast
qed

text \<open>The theorem at the query \<open>under $60\<close> on the fixture catalog.\<close>

theorem under_amount_results_witness:
  "contains ''under'' (lower (strip ''under $60'')) \<and>
   parse_amount (lower (strip ''under $60'')) = Some 60 \<and>
   \<not> search_wants_over (lower (strip ''under $60'')) \<and>
   \<not> chat_wants_over (lower (strip ''under $60'')) \<and>
   \<not> chat_wants_high (lower (strip ''under $60'')) \<and>
   list_all (\<lambda>p. price p \<le> 100 * 60) (api_search home_catalog (Some ''under $60'')) \<and>
   length (api_search home_catalog (Some ''under $60'')) \<le> 20 \<and>
   price_desc_id_asc (api_search home_catalog (Some ''under $60'')) \<and>
   list_all (\<lambda>p. price p \<le> 100 * 60) (chat_products home_catalog (strip ''under $60'')) \<and>
   length (chat_products home_catalog (strip ''under $60'')) \<le> 5 \<and>
   price_asc_id_asc (chat_products home_catalog (strip ''under $60''))"
proof -
  have h1: "contains ''under'' (lower (strip ''under $60'')) \<or>
            contains ''below'' (lower (strip ''under $60''))"
    by code_simp
  have h2: "parse_amount (lower (strip ''under $60'')) = Some 60"
    by code_simp
  have h3: "\<not> search_wants_over (lower (strip ''under $60''))"
    by code_simp
  have h4: "\<not> chat_wants_over (lower (strip ''under $60''))"
    by code_simp
  have h5: "\<not> chat_wants_high (lower (strip ''under $60''))"
    by code_simp
  have h6: "contains ''under'' (lower (strip ''under $60''))"
    by code_simp
  from under_amount_results [OF refl h1 h2, of home_catalog] h2 h3 h4 h5 h6
  show ?thesis by (simp add: list_all_iff)
qed

text \<open>
  The search results for \<open>under $60\<close> start with the most expensive product under the
  amount, so they are not ordered by non-decreasing price as C2 states; and the amount is
  the first number of the text, here 50.
\<close>

theorem under_amount_counterexample:
  "contains ''under $60'' ''under $60'' \<and>
   map (\<lambda>p. (price p, pid p)) (api_search home_catalog (Some ''under $60'')) =
     [(5000, 2), (5000, 4), (1000, 1)] \<and>
   \<not> sorted (map price (api_search home_catalog (Some ''under $60''))) \<and>
   contains ''under $20'' ''50 products under $20'' \<and>
   map price (api_search home_catalog (Some ''50 products under $20'')) = [5000, 5000, 1000]"
  by code_simp

section \<open>Properties of the chat responder\<close>

text \<open>
  Claim C6.  For a message that is absent, empty or only whitespace, \<open>api_chat\<close> answers
  400 with the fixed rejection and has no effect at all: no catalog query, no AI call.
  For any other message for which the retrieval finds no product, it answers with the
  fixed guidance text after the catalog query alone.  The AI backend is called exactly
  when the retrieval finds a product, so neither of these two replies comes with a call.
\<close>

theorem chat_no_ai_call:
  "(strip (case msg of None \<Rightarrow> [] | Some s \<Rightarrow> s) = [] \<longrightarrow>
      api_chat generate_text products msg = ((400, Reply ''Please type a question first.''), [])) \<and>
   (strip (case msg of None \<Rightarrow> [] | Some s \<Rightarrow> s) \<noteq> [] \<and>
    chat_products products (strip (case msg of None \<Rightarrow> [] | Some s \<Rightarrow> s)) = [] \<longrightarrow>
      api_chat generate_text products msg = ((200, Reply chat_no_match), [CatalogQuery])) \<and>
   ((\<exists>prompt. AICall prompt \<in> set (snd (api_chat generate_text products msg))) \<longleftrightarrow>
      strip (case msg of None \<Rightarrow> [] | Some s \<Rightarrow> s) \<noteq> [] \<and>
      chat_products products (strip (case msg of None \<Rightarrow> [] | Some s \<Rightarrow> s)) \<noteq> [])"
proof (cases "strip (case msg of None \<Rightarrow> [] | Some s \<Rightarrow> s) = []")
  case True
  then show ?thesis
    by (simp add: api_chat_def)
next
  case False
  show ?thesis
  proof (cases "chat_products products (strip (case msg of None \<Rightarrow> [] | Some s \<Rightarrow> s)) = []")
    case True
    with False show ?thesis
      by (simp add: api_chat_def Let_def)
  next
    case found: False
    with False have "snd (api_chat generate_text products msg) =
      [CatalogQuery,
       AICall (chat_prompt (strip (case msg of None \<Rightarrow> [] | Some s \<Rightarrow> s))
                 (chat_products products (strip (case msg of None \<Rightarrow> [] | Some s \<Rightarrow> s))))]"
      by (simp add: api_chat_def Let_def)
    with False found show ?thesis
      by simp
  qed
qed

text \<open>
  A whitespace message, and a message no product matches, with a backend that would
  answer every prompt.
\<close>

theorem chat_no_ai_call_witness:
  "strip ''   '' = [] \<and>
   api_chat (\<lambda>prompt. ''Sure!'') home_catalog (Some ''   '') =
     ((400, Reply ''Please type a question first.''), []) \<and>
   strip ''zebra'' \<noteq> [] \<and>
   chat_products home_catalog (strip ''zebra'') = [] \<and>
   api_chat (\<lambda>prompt. ''Sure!'') home_catalog (Some ''zebra'') =
     ((200, Reply chat_no_match), [CatalogQuery])"
proof -
  have h1: "strip ''   '' = []"
    by code_simp
  have h2: "strip ''zebra'' \<noteq> []"
    by code_simp
  have h3: "chat_products home_catalog (strip ''zebra'') = []"
    by code_simp
  from chat_no_ai_call [of "Some ''   ''" "\<lambda>prompt. ''Sure!''" home_catalog]
       chat_no_ai_call [of "Some ''zebra''" "\<lambda>prompt. ''Sure!''" home_catalog] h1 h2 h3
  show ?thesis by simp
qed

section \<open>Properties of the generators\<close>

lemma get_product_pid: "get_product products i = Some p \<Longrightarrow> pid p = i"
  unfolding get_product_def by (induction products) (auto split: if_splits)

lemma get_product_save:
  "get_product products i = Some p \<Longrightarrow> pid p' = i \<Longrightarrow>
   get_product (save_product p' products) i = Some p'"
  unfolding get_product_def save_product_def
  by (induction products) (auto split: if_splits)

lemma get_product_save_other:
  "j \<noteq> pid p' \<Longrightarrow> get_product (save_product p' products) j = get_product products j"
  unfolding get_product_def save_product_def
  by (induction products) auto

text \<open>
  Claim C8.  For an existing product: when \<open>generate_text\<close> returns the empty text,
  \<open>api_generate_description\<close> answers 502 with an error message and the product table is
  the one before the request; when it returns a non-empty text, the answer is 200 with
  that text, the product's \<open>ai_description\<close> is exactly that text, its other fields are
  as before, and every other product is as before.
\<close>

theorem generate_description_result:
  assumes "get_product products i = Some p"
  shows "(generate_text (description_prompt p) = [] \<longrightarrow>
            api_generate_description generate_text products i =
              ((502, ErrorMsg ''Gemini returned empty text''), products)) \<and>
         (generate_text (description_prompt p) \<noteq> [] \<longrightarrow>
            fst (api_generate_description generate_text products i) =
              (200, Description i (generate_text (description_prompt p))) \<and>
            get_product (snd (api_generate_description generate_text products i)) i =
              Some (p\<lparr>ai_description := generate_text (description_prompt p)\<rparr>) \<and>
            (\<forall>j. j \<noteq> i \<longrightarrow>
               get_product (snd (api_generate_description generate_text products i)) j =
               get_product products j))"
proof -
  have pid: "pid p = i"
    using assms by (rule get_product_pid)
  show ?thesis
    using assms pid
    by (simp add: api_generate_description_def Let_def get_product_save get_product_save_other)
qed

text \<open>Product 2 of the fixture catalog, with a backend that fails and one that answers.\<close>

theorem generate_description_result_witness:
  "get_product home_catalog 2 = Some (mk_product 2 ''Mid Item'' ''Home'' 5000 ''mid,home'') \<and>
   api_generate_description (\<lambda>prompt. '''') home_catalog 2 =
     ((502, ErrorMsg ''Gemini returned empty text''), home_catalog) \<and>
   fst (api_generate_description (\<lambda>prompt. ''A fine item.'') home_catalog 2) =
     (200, Description 2 ''A fine item.'') \<and>
   get_product (snd (api_generate_description (\<lambda>prompt. ''A fine item.'') home_catalog 2)) 2 =
     Some ((mk_product 2 ''Mid Item'' ''Home'' 5000 ''mid,home'')\<lparr>ai_description := ''A fine item.''\<rparr>) \<and>
   get_product (snd (api_generate_description (\<lambda>prompt. ''A fine item.'') home_catalog 2)) 3 =
     get_product home_catalog 3"
proof -
  have h: "get_product home_catalog 2 = Some (mk_product 2 ''Mid Item'' ''Home'' 5000 ''mid,home'')"
    by (simp add: get_product_def home_catalog_def mk_product_def)
  from generate_description_result [OF h, of "\<lambda>prompt. ''''"]
       generate_description_result [OF h, of "\<lambda>prompt. ''A fine item.''"] h
  show ?thesis by simp
qed

section \<open>Properties of the review summarizer endpoint\<close>

lemma recent_reviews_length: "length (recent_reviews reviews i) \<le> 20"
  by (simp add: recent_reviews_def)

lemma recent_reviews_subset:
  "set (recent_reviews reviews i) \<subseteq> {r \<in> set reviews. review_product r = i}"
  by (auto simp: recent_reviews_def dest!: in_set_takeD)

lemma recent_reviews_nonempty:
  "r \<in> set reviews \<Longrightarrow> review_product r = i \<Longrightarrow> recent_reviews reviews i \<noteq> []"
proof -
  assume "r \<in> set reviews" "review_product r = i"
  then have "r \<in> set (sort_key (\<lambda>r. - created_at r) (filter (\<lambda>r. review_product r = i) reviews))"
    by simp
  then have "sort_key (\<lambda>r. - created_at r) (filter (\<lambda>r. review_product r = i) reviews) \<noteq> []"
    by (metis empty_iff empty_set)
  then show ?thesis
    by (simp add: recent_reviews_def)
qed

lemma sorted_take_drop_le:
  assumes "sorted (map f xs)" "a \<in> set (take n xs)" "b \<in> set (drop n xs)"
  shows "f a \<le> f b"
proof -
  have "sorted (map f (take n xs) @ map f (drop n xs))"
    using assms(1) by (simp flip: map_append)
  then show ?thesis
    using assms(2,3) by (auto simp: sorted_append)
qed

lemma recent_reviews_newest:
  assumes "r \<in> set (recent_reviews reviews i)"
    and "r' \<in> set reviews" "review_product r' = i"
    and "r' \<notin> set (recent_reviews reviews i)"
  shows "created_at r' \<le> created_at r"
proof -
  let ?xs = "sort_key (\<lambda>r. - created_at r) (filter (\<lambda>r. review_product r = i) reviews)"
  have "r' \<in> set ?xs"
    using assms(2,3) by simp
  then have "r' \<in> set (take 20 ?xs) \<union> set (drop 20 ?xs)"
    by (metis append_take_drop_id set_append)
  with assms(4) have d: "r' \<in> set (drop 20 ?xs)"
    by (simp add: recent_reviews_def)
  have t: "r \<in> set (take 20 ?xs)"
    using assms(1) by (simp add: recent_reviews_def)
  have "sorted (map (\<lambda>r. - created_at r) ?xs)"
    by (rule sorted_sort_key)
  from sorted_take_drop_le [OF this t d] show ?thesis
    by simp
qed

text \<open>
  Claim C10.  For an existing product with at least one review, \<open>api_summarize_reviews\<close>
  answers 200 and stores in \<open>ai_review_summary\<close> the text it answers with: the text of
  the AI backend when that is non-empty, else the basic summary followed by the fixed
  note.  The other fields and the other products stay as they were.  Prompt and basic
  summary are built from \<open>recent_reviews\<close> alone: at most 20 reviews of the product, and
  no review of the product left out is newer than one taken.
\<close>

theorem summarize_reviews_result:
  assumes "get_product products i = Some p"
    and "r0 \<in> set all_reviews" and "review_product r0 = i"
    and "rs = recent_reviews all_reviews i"
    and "text = (if generate_text (summarize_prompt rs) = []
                 then basic_review_summary fmt1 rs @ quota_note
                 else generate_text (summarize_prompt rs))"
  shows "fst (api_summarize_reviews generate_text fmt1 products all_reviews i) =
           (200, Summary i text) \<and>
         get_product (snd (api_summarize_reviews generate_text fmt1 products all_reviews i)) i =
           Some (p\<lparr>ai_review_summary := text\<rparr>) \<and>
         (\<forall>j. j \<noteq> i \<longrightarrow>
            get_product (snd (api_summarize_reviews generate_text fmt1 products all_reviews i)) j =
            get_product products j) \<and>
         length rs \<le> 20 \<and>
         (\<forall>r \<in> set rs. r \<in> set all_reviews \<and> review_product r = i) \<and>
         (\<forall>r \<in> set rs. \<forall>r' \<in> set all_reviews.
            review_product r' = i \<and> r' \<notin> set rs \<longrightarrow> created_at r' \<le> created_at r)"
proof -
  have pid: "pid p = i"
    using assms(1) by (rule get_product_pid)
  have ne: "rs \<noteq> []"
    unfolding assms(4) using assms(2,3) by (rule recent_reviews_nonempty)
  have a: "fst (api_summarize_reviews generate_text fmt1 products all_reviews i) =
           (200, Summary i text)"
    using assms(1) pid ne
    by (simp add: api_summarize_reviews_def Let_def assms(4) [symmetric] assms(5))
  have b: "get_product (snd (api_summarize_reviews generate_text fmt1 products all_reviews i)) i =
           Some (p\<lparr>ai_review_summary := text\<rparr>)"
    using assms(1) pid ne
    by (simp add: api_summarize_reviews_def Let_def assms(4) [symmetric] assms(5)
        get_product_save)
  have c: "\<forall>j. j \<noteq> i \<longrightarrow>
            get_product (snd (api_summarize_reviews generate_text fmt1 products all_reviews i)) j =
            get_product products j"
    using assms(1) pid ne
    by (simp add: api_summarize_reviews_def Let_def assms(4) [symmetric]
        get_product_save_other)
  have d: "length rs \<le> 20"
    unfolding assms(4) by (rule recent_reviews_length)
  have e: "\<forall>r \<in> set rs. r \<in> set all_reviews \<and> review_product r = i"
    unfolding assms(4) using recent_reviews_subset by blast
  have f: "\<forall>r \<in> set rs. \<forall>r' \<in> set all_reviews.
            review_product r' = i \<and> r' \<notin> set rs \<longrightarrow> created_at r' \<le> created_at r"
    unfolding assms(4) using recent_reviews_newest by blast
  from a b c d e f show ?thesis
    by blast
qed

text \<open>
  Product 1 of the fixture catalog with the four reviews of the tests, the backend
  returning the empty text.
\<close>

theorem summarize_reviews_result_witness:
  "get_product home_catalog 1 = Some (mk_product 1 ''Cheap Item'' ''Home'' 1000 ''cheap,home'') \<and>
   mk_review 1 2 ''Not very durable. Disappointed.'' 4 \<in> set earbud_reviews \<and>
   fst (api_summarize_reviews (\<lambda>prompt. '''') (\<lambda>q. ''3.5'') home_catalog earbud_reviews 1) =
     (200, Summary 1
        (basic_review_summary (\<lambda>q. ''3.5'') (recent_reviews earbud_reviews 1) @ quota_note)) \<and>
   get_product
     (snd (api_summarize_reviews (\<lambda>prompt. '''') (\<lambda>q. ''3.5'') home_catalog earbud_reviews 1)) 1 =
     Some ((mk_product 1 ''Cheap Item'' ''Home'' 1000 ''cheap,home'')
             \<lparr>ai_review_summary :=
                basic_review_summary (\<lambda>q. ''3.5'') (recent_reviews earbud_reviews 1) @ quota_note\<rparr>) \<and>
   length (recent_reviews earbud_reviews 1) \<le> 20 \<and>
   map created_at (recent_reviews earbud_reviews 1) = [4, 3, 2, 1]"
proof -
  have h1: "get_product home_catalog 1 =
            Some (mk_product 1 ''Cheap Item'' ''Home'' 1000 ''cheap,home'')"
    by (simp add: get_product_def home_catalog_def mk_product_def)
  have h2: "mk_review 1 2 ''Not very durable. Disappointed.'' 4 \<in> set earbud_reviews"
    by (simp add: earbud_reviews_def)
  have h3: "review_product (mk_review 1 2 ''Not very durable. Disappointed.'' 4) = 1"
    by (simp add: mk_review_def)
  have h4: "map created_at (recent_reviews earbud_reviews 1) = [4, 3, 2, 1]"
    by code_simp
  from summarize_reviews_result [OF h1 h2 h3 refl refl, of "\<lambda>prompt. ''''" "\<lambda>q. ''3.5''"] h1 h2 h4
  show ?thesis by simp
qed

section \<open>Properties of the basic review summary\<close>









section \<open>Properties of the intent parsers\<close>

lemma any_in_mono: "set ws \<subseteq> set ws' \<Longrightarrow> any_in ws ql \<Longrightarrow> any_in ws' ql"
  by (auto simp: any_in_def list_ex_iff)

lemma any_in_append: "any_in (ws @ ws') ql \<longleftrightarrow> any_in ws ql \<or> any_in ws' ql"
  by (auto simp: any_in_def list_ex_iff)

text \<open>
  Claim C5, as the code has it.  The two endpoints read the same amount from a text and
  cut it into the same tokens, but each has its own word lists.  What search takes for
  the under direction chat takes for it too; what search takes for the over direction
  chat takes for the over direction or for a high price; and the two keyword lists agree
  once the stop words of the other endpoint and the tokens of at most two letters, which
  only chat drops, are removed from each.
\<close>

theorem intents_related:
  "fst (search_intent ql) = fst (chat_intent ql) \<and>
   (search_wants_under ql \<longrightarrow> chat_wants_under ql) \<and>
   (search_wants_over ql \<longrightarrow> chat_wants_over ql \<or> chat_wants_high ql) \<and>
   filter (\<lambda>w. w \<notin> set chat_noise \<and> length w > 2) (search_keywords ql) =
     filter (\<lambda>w. w \<notin> set search_noise) (chat_keywords ql)"
proof (intro conjI impI)
  show "fst (search_intent ql) = fst (chat_intent ql)"
    by (simp add: search_intent_def chat_intent_def)
  show "chat_wants_under ql" if "search_wants_under ql"
    using that unfolding search_wants_under_def chat_wants_under_def
    by (rule any_in_mono [rotated]) auto
  show "chat_wants_over ql \<or> chat_wants_high ql" if "search_wants_over ql"
  proof -
    have "any_in ([''above'', ''over'', ''>'', ''more than'', ''higher than'', ''at least''] @
                  [''higher price'', ''high price'', ''expensive'', ''premium'', ''costly'',
                   ''most expensive'']) ql"
      using that unfolding search_wants_over_def
      by (rule any_in_mono [rotated]) auto
    then show ?thesis
      unfolding chat_wants_over_def chat_wants_high_def any_in_append .
  qed
  show "filter (\<lambda>w. w \<notin> set chat_noise \<and> length w > 2) (search_keywords ql) =
        filter (\<lambda>w. w \<notin> set search_noise) (chat_keywords ql)"
    unfolding search_keywords_def chat_keywords_def filter_filter
    by (rule filter_cong) auto
qed

text \<open>The text \<open>suggest me expensive gifts\<close>.\<close>

theorem intents_related_witness:
  "search_wants_over ''suggest me expensive gifts'' \<and>
   chat_wants_high ''suggest me expensive gifts'' \<and>
   search_keywords ''suggest me expensive gifts'' = [''suggest'', ''me'', ''gifts''] \<and>
   chat_keywords ''suggest me expensive gifts'' = [''gifts''] \<and>
   filter (\<lambda>w. w \<notin> set chat_noise \<and> length w > 2)
     (search_keywords ''suggest me expensive gifts'') =
   filter (\<lambda>w. w \<notin> set search_noise) (chat_keywords ''suggest me expensive gifts'')"
proof -
  have h1: "search_wants_over ''suggest me expensive gifts''"
    by code_simp
  have h2: "\<not> chat_wants_over ''suggest me expensive gifts''"
    by code_simp
  have h3: "search_keywords ''suggest me expensive gifts'' = [''suggest'', ''me'', ''gifts'']"
    by code_simp
  have h4: "chat_keywords ''suggest me expensive gifts'' = [''gifts'']"
    by code_simp
  from intents_related [of "''suggest me expensive gifts''"] h1 h2 h3 h4
  show ?thesis
    by blast
qed

text \<open>
  The intents differ: for \<open>show me headphones\<close> search keeps the keywords \<open>show\<close> and
  \<open>me\<close>, which chat drops; for \<open>expensive products\<close> search sees the over direction
  and chat does not, and chat keeps the keyword \<open>products\<close>, which search drops.
\<close>

theorem intents_counterexample:
  "search_intent (lower (strip ''show me headphones'')) =
     (None, False, False, [''show'', ''me'', ''headphones'']) \<and>
   chat_intent (lower (strip ''show me headphones'')) =
     (None, False, False, [''headphones'']) \<and>
   search_intent (lower (strip ''expensive products'')) = (None, False, True, []) \<and>
   chat_intent (lower (strip ''expensive products'')) = (None, False, False, [''products'']) \<and>
   search_intent (lower (strip ''show me headphones'')) \<noteq>
     chat_intent (lower (strip ''show me headphones''))"
  by code_simp

section \<open>Properties of the recommendation engine\<close>





























section \<open>The scenarios of the tests\<close>

text \<open>
  The searches of \<open>tests_api.py\<close> on its catalog: \<open>under $20\<close> finds the yoga mat
  alone, \<open>above $60\<close> the smart watch alone, \<open>earbuds\<close> the earbuds.
\<close>

theorem search_test_scenarios:
  "map name (api_search test_catalog (Some ''under $20'')) = [''Yoga Mat''] \<and>
   map name (api_search test_catalog (Some ''above $60'')) = [''Smart Watch''] \<and>
   map name (api_search test_catalog (Some ''earbuds'')) = [''Wireless Earbuds'']"
  by code_simp

text \<open>
  A chat request with a backend that returns the empty text: the reply is the title, one
  line for each product and the fixed note, after one catalog query and one call of the
  backend.
\<close>

theorem chat_fallback_reply:
  "api_chat (\<lambda>prompt. '''') home_catalog (Some ''under $20'') =
     ((200, Reply (''Here are some products from our catalog under $20:'' @ nl @
                   ''- Cheap Item ($10.00) '' @ em_dash @ '' Home (View: /products/1/)'' @ nl @ nl @
                   ''(Note: AI service busy, showing catalog-based suggestions.)'')),
      [CatalogQuery,
       AICall (chat_prompt ''under $20'' [mk_product 1 ''Cheap Item'' ''Home'' 1000 ''cheap,home''])])"
  by code_simp

text \<open>
  The chat message \<open>higher price products\<close>: the token \<open>products\<close> is no stop word of
  the chat endpoint, so it is a keyword, and on a catalog where no product mentions it
  the reply is the guidance text.
\<close>

theorem chat_products_keyword:
  "chat_keywords (lower (strip ''higher price products'')) = [''products''] \<and>
   search_keywords (lower (strip ''higher price products'')) = [] \<and>
   api_chat (\<lambda>prompt. '''') test_catalog (Some ''higher price products'') =
     ((200, Reply chat_no_match), [CatalogQuery])"
  by code_simp

end
